theory Spec2Isabelle
  imports Complex_Main
begin

section \<open>Numeric primitives\<close>

text \<open>
  A C++ \<^verbatim>\<open>double\<close> that may be infinite is a finite value or one of the two infinities.
  Rounding is not modelled: the functions below only store, return and compare such values.
\<close>

datatype dbl = Finite real | PosInf | NegInf

subsection \<open>Log-binomials (util.hh)\<close>

text \<open>
  \<^verbatim>\<open>lbinom\<close>, \<^verbatim>\<open>lbinom_fast\<close> and \<^verbatim>\<open>lbinom_careful\<close> are templates over the two
  argument types; the arguments are integers here. The library functions
  \<^verbatim>\<open>std::lgamma\<close>, \<^verbatim>\<open>std::log1p\<close>, \<^verbatim>\<open>std::log\<close> and the cached \<^verbatim>\<open>lgamma_fast\<close>
  (cache.hh) are parameters.
\<close>

definition lbinom :: "(real \<Rightarrow> real) \<Rightarrow> int \<Rightarrow> int \<Rightarrow> real" where
  "lbinom lgamma N k =
     (if N = 0 \<or> k = 0 \<or> k \<ge> N then 0
      else ((lgamma (of_int (N + 1)) - lgamma (of_int (k + 1))) - lgamma (of_int ((N - k) + 1))))"

definition lbinom_fast :: "(real \<Rightarrow> real) \<Rightarrow> int \<Rightarrow> int \<Rightarrow> real" where
  "lbinom_fast lgamma_fast N k =
     (if N = 0 \<or> k = 0 \<or> k \<ge> N then 0
      else ((lgamma_fast (of_int (N + 1)) - lgamma_fast (of_int (k + 1)))
            - lgamma_fast (of_int ((N - k) + 1))))"

definition lbinom_careful ::
  "(real \<Rightarrow> real) \<Rightarrow> (real \<Rightarrow> real) \<Rightarrow> (real \<Rightarrow> real) \<Rightarrow> int \<Rightarrow> int \<Rightarrow> real" where
  "lbinom_careful lgamma log1p logf N k =
     (if N = 0 \<or> k = 0 \<or> k \<ge> N then 0
      else
        let lgN = lgamma (of_int (N + 1));
            lgk = lgamma (of_int (k + 1))
        in if lgN - lgk > 100000000
           then (let Nd = (of_int N :: real)
                 in - of_int N * log1p (- of_int k / Nd) - of_int k * log1p (- of_int k / Nd)
                    - of_int k - lgk + of_int k * logf Nd)
           else lgN - lgamma (of_int (N - k + 1)) - lgk)"

subsection \<open>Restricted integer partitions (int_part.hh)\<close>

text \<open>
  The global \<^verbatim>\<open>__q_cache\<close> is a two-dimensional array: \<open>shape0\<close> is its first extent
  (\<^verbatim>\<open>__q_cache.shape()[0]\<close>) and \<open>data\<close> its contents. \<^verbatim>\<open>log_q_approx\<close> is declared in
  int_part.hh and defined elsewhere; it is a parameter. \<^verbatim>\<open>log_q\<close> returns its value
  together with the cache, so that its effect on the cache can be stated.
\<close>

record q_cache =
  shape0 :: nat
  data :: "nat \<Rightarrow> nat \<Rightarrow> dbl"

definition log_q :: "q_cache \<Rightarrow> (nat \<Rightarrow> nat \<Rightarrow> dbl) \<Rightarrow> int \<Rightarrow> int \<Rightarrow> dbl \<times> q_cache" where
  "log_q cache log_q_approx n k =
     (if n \<le> 0 \<or> k < 1 then (Finite 0, cache)
      else
        let k = (if k > n then n else k)
        in if nat n < shape0 cache then (data cache (nat n) (nat k), cache)
           else (log_q_approx (nat n) (nat k), cache))"

text \<open>
  A cache as \<^verbatim>\<open>init_q_cache 9\<close> leaves it: ten rows, the entries with \<open>1 \<le> k \<le> n\<close>
  filled with a finite logarithm, every other entry still at its initial \<open>-\<infinity>\<close>.
\<close>

definition q_cache_example :: q_cache where
  "q_cache_example =
     \<lparr>shape0 = 10,
      data = (\<lambda>n k. if 1 \<le> k \<and> k \<le> n then Finite (ln (real (n + 1 - k))) else NegInf)\<rparr>"

section \<open>The block state (graph_blockmodel.hh)\<close>

text \<open>
  Vertices and blocks are indices (\<^verbatim>\<open>size_t\<close>). The property maps \<^verbatim>\<open>_b\<close>, \<^verbatim>\<open>_wr\<close>,
  \<^verbatim>\<open>_vweight\<close>, ... are unchecked vectors: they are total functions here, and a read or
  write past the end of a vector (undefined in C++) is not modelled. The \<^verbatim>\<open>int32_t\<close> and
  \<^verbatim>\<open>size_t\<close> counters are unbounded integers (they are assumed not to overflow).
  The graph is directed and weighted: an edge is (source, target, weight). Edge covariates
  are absent (\<^verbatim>\<open>_rec_types\<close> is empty, \<^verbatim>\<open>_rt\<close> is \<^verbatim>\<open>weight_type::NONE\<close>).
\<close>

type_synonym edge = "nat \<times> nat \<times> int"

type_synonym entries = "((nat \<times> nat) \<times> int) list"

text \<open>The exception classes of graph_exceptions.hh that the block state throws.\<close>

datatype exn = GraphException string | ValueException string

text \<open>
  \<^verbatim>\<open>null_group\<close> is declared outside the sources at hand; it is the largest \<^verbatim>\<open>size_t\<close>,
  as the constant \<^verbatim>\<open>null\<close> of \<^verbatim>\<open>modify_edge_dS\<close> is.
\<close>

definition null_group :: nat where
  "null_group = 2 ^ 64 - 1"

text \<open>
  \<^verbatim>\<open>entropy_args_t\<close> is declared outside the sources at hand; its fields are those that
  graph_blockmodel.hh reads.
\<close>

record entropy_args =
  ea_adjacency :: bool
  ea_dense :: bool
  ea_multigraph :: bool
  ea_exact :: bool
  ea_deg_entropy :: bool
  ea_partition_dl :: bool
  ea_degree_dl :: bool
  ea_degree_dl_kind :: nat
  ea_edges_dl :: bool
  ea_recs :: bool
  ea_Bfield :: bool
  ea_beta_dl :: real

subsection \<open>Partition statistics\<close>

text \<open>
  Modelled from the spec: the class \<^verbatim>\<open>partition_stats\<close> (graph_blockmodel_partition.hh is
  not among the sources). Per constraint class it keeps rolling counters: the weight of
  the vertices of each block, a histogram of the degree pairs \<open>(kin, kout)\<close> of each block
  with the sums of in- and out-degrees, the number of non-empty blocks (\<^verbatim>\<open>get_actual_B\<close>),
  and the totals \<open>N\<close> and \<open>E\<close>.
\<close>

record partition_stats_t =
  ps_total :: "nat \<Rightarrow> int"
  ps_hist :: "nat \<times> int \<times> int \<Rightarrow> int"
  ps_em :: "nat \<Rightarrow> int"
  ps_ep :: "nat \<Rightarrow> int"
  ps_actual_B :: int
  ps_N :: int
  ps_E :: int

subsection \<open>One level of the hierarchy\<close>

text \<open>
  The members of \<^verbatim>\<open>BlockState\<close> that the operations below read or write. \<open>num_vertices\<close>
  and \<open>g_edges\<close> are the graph \<^verbatim>\<open>_g\<close> with \<^verbatim>\<open>_eweight\<close>; \<open>num_blocks\<close> is
  \<^verbatim>\<open>num_vertices(_bg)\<close>; \<open>mrs\<close> is keyed by the block pair, with \<open>0\<close> for a pair
  that has no edge in \<^verbatim>\<open>_bg\<close>; \<open>degs\<close> is the stored degree pair \<open>(kin, kout)\<close> of
  a vertex; \<open>total_N\<close> and \<open>total_E\<close> are \<^verbatim>\<open>_N\<close> and \<^verbatim>\<open>_E\<close>; \<open>m_entries\<close> is the
  scratch buffer \<^verbatim>\<open>_m_entries\<close>. The sets \<^verbatim>\<open>_empty_groups\<close> and \<^verbatim>\<open>_candidate_groups\<close>
  (\<^verbatim>\<open>idx_set\<close>, whose element order is not modelled) are sets. The property maps
  \<^verbatim>\<open>_wr\<close>, \<^verbatim>\<open>_vweight\<close>, \<^verbatim>\<open>_mrp\<close> and \<^verbatim>\<open>_mrm\<close> hold \<^verbatim>\<open>int32_t\<close>; here they
  hold integers, and the arithmetic on them is the arithmetic of the code as long as
  the values stay representable. \<open>sizes_fit\<close> and \<open>room_for\<close> below say that the weights
  and the block sizes are, and remain, at most \<open>int32_max\<close>.
\<close>

record level =
  num_vertices :: nat
  g_edges :: "edge list"
  num_blocks :: nat
  b :: "nat \<Rightarrow> nat"
  vweight :: "nat \<Rightarrow> int"
  degs :: "nat \<Rightarrow> int \<times> int"
  wr :: "nat \<Rightarrow> int"
  mrs :: "nat \<times> nat \<Rightarrow> int"
  mrp :: "nat \<Rightarrow> int"
  mrm :: "nat \<Rightarrow> int"
  bclabel :: "nat \<Rightarrow> int"
  pclabel :: "nat \<Rightarrow> nat"
  deg_corr :: bool
  total_N :: int
  total_E :: int
  empty_groups :: "nat set"
  candidate_groups :: "nat set"
  partition_stats :: "partition_stats_t list"
  m_entries :: entries
  coupled_entropy_args :: entropy_args

text \<open>
  A state with its coupled state: \<^verbatim>\<open>_coupled_state\<close> is a null pointer (\<open>None\<close>) or the
  state of the next level, whose graph is this level's block graph. The operations
  below are applied at the lowest level and act on the levels above through
  \<^verbatim>\<open>_coupled_state\<close>; there they never read \<open>g_edges\<close>.
\<close>

datatype bstate = BlockState (lvl: level) (coupled_state: "bstate option")

subsection \<open>Move entries\<close>

text \<open>
  Modelled from the spec: \<^verbatim>\<open>EntrySet\<close>, \<^verbatim>\<open>move_entries\<close> and \<^verbatim>\<open>apply_delta\<close>
  (graph_blockmodel_entries.hh is not among the sources). The entries are the sparse
  change \<open>(r, s) \<mapsto> \<delta>\<close> of the edge counts that moving one vertex induces, keyed by the
  block pair; \<^verbatim>\<open>insert_delta\<close> accumulates into the entry of a pair.
\<close>

fun insert_delta :: "nat \<times> nat \<Rightarrow> int \<Rightarrow> entries \<Rightarrow> entries" where
  "insert_delta k d [] = [(k, d)]"
| "insert_delta k d ((k', d') # es) =
     (if k = k' then (k', d' + d) # es else (k', d') # insert_delta k d es)"

text \<open>
  The entries of vertex \<open>v\<close> leaving (\<open>Add = False\<close>) or entering (\<open>Add = True\<close>) block
  \<open>r\<close>: one delta per out-edge, at \<open>(r, b[target])\<close>, and one per in-edge that is not a
  self-loop, at \<open>(b[source], r)\<close>. A self-loop of a vertex that enters \<open>r\<close> lands at
  \<open>(r, r)\<close>. \<open>efilt\<close> suppresses edges.
\<close>

definition modify_entries ::
  "bool \<Rightarrow> nat \<Rightarrow> nat \<Rightarrow> (nat \<Rightarrow> nat) \<Rightarrow> edge list \<Rightarrow> (edge \<Rightarrow> bool) \<Rightarrow> entries \<Rightarrow> entries" where
  "modify_entries Add v r bm g efilt es =
     (let es1 =
            fold (\<lambda>(u, t, ew) acc.
                    if u = v \<and> \<not> efilt (u, t, ew)
                    then insert_delta (r, if Add \<and> t = v then r else bm t)
                           (if Add then ew else - ew) acc
                    else acc) g es
      in fold (\<lambda>(u, t, ew) acc.
                 if t = v \<and> u \<noteq> v \<and> \<not> efilt (u, t, ew)
                 then insert_delta (bm u, r) (if Add then ew else - ew) acc
                 else acc) g es1)"

definition move_entries ::
  "nat \<Rightarrow> nat \<Rightarrow> nat \<Rightarrow> (nat \<Rightarrow> nat) \<Rightarrow> edge list \<Rightarrow> (edge \<Rightarrow> bool) \<Rightarrow> entries" where
  "move_entries v r nr bm g efilt =
     (let es0 = [];
          es1 = (if r \<noteq> null_group then modify_entries False v r bm g efilt es0 else es0)
      in if nr \<noteq> null_group then modify_entries True v nr bm g efilt es1 else es1)"

text \<open>\<^verbatim>\<open>BlockState::get_move_entries\<close> on the state's own buffer, for \<^verbatim>\<open>_rt == NONE\<close>.\<close>

fun get_move_entries :: "bstate \<Rightarrow> nat \<Rightarrow> nat \<Rightarrow> nat \<Rightarrow> (edge \<Rightarrow> bool) \<Rightarrow> bstate" where
  "get_move_entries (BlockState L c) v r nr efilt =
     BlockState (L\<lparr>m_entries := move_entries v r nr (b L) (g_edges L) efilt\<rparr>) c"

text \<open>
  Applying one entry adds its delta to \<open>m_rs\<close>, to the out-mass of \<open>r\<close> and to the in-mass
  of \<open>s\<close>; an entry with delta \<open>0\<close> is skipped.
\<close>

fun apply_entry :: "(nat \<times> nat) \<times> int \<Rightarrow> level \<Rightarrow> level" where
  "apply_entry ((r, s), d) L =
     (if d = 0 then L
      else L\<lparr>mrs := (mrs L)((r, s) := mrs L (r, s) + d),
             mrp := (mrp L)(r := mrp L r + d),
             mrm := (mrm L)(s := mrm L s + d)\<rparr>)"

definition p_entries :: "entries \<Rightarrow> entries" where
  "p_entries es = filter (\<lambda>(k, d). d \<noteq> 0) es"

text \<open>The entries with every delta negated: the change that undoes the entries.\<close>

definition neg_entries :: "entries \<Rightarrow> entries" where
  "neg_entries es = map (\<lambda>(k, d). (k, - d)) es"

text \<open>
  \<^verbatim>\<open>apply_delta\<close> applies the entries of the state's buffer and hands the non-zero ones
  to the coupled state. \<^verbatim>\<open>BlockState::propagate_delta\<close> (in the sources) maps them through
  its own \<open>b\<close> into its own buffer and applies that in turn. The pair of blocks it is
  called with only labels the buffer (\<^verbatim>\<open>set_move\<close>) and is left out.
\<close>

fun apply_delta :: "bstate \<Rightarrow> bstate"
  and propagate_delta :: "bstate \<Rightarrow> entries \<Rightarrow> bstate" where
  "apply_delta (BlockState L c) =
     BlockState (fold apply_entry (m_entries L) L)
       (case c of
          None \<Rightarrow> None
        | Some H \<Rightarrow>
            Some (if p_entries (m_entries L) = [] then H
                  else propagate_delta H (p_entries (m_entries L))))"
| "propagate_delta (BlockState L c) es =
     apply_delta
       (BlockState
          (L\<lparr>m_entries :=
               fold (\<lambda>((r, s), d) acc. insert_delta (b L r, b L s) d acc) es []\<rparr>) c)"

subsection \<open>Partition statistics of a level\<close>

text \<open>
  Modelled from the spec: the updates of \<^verbatim>\<open>partition_stats\<close> when a vertex enters
  (\<open>diff = 1\<close>) or leaves (\<open>diff = -1\<close>) block \<open>r\<close>. A vertex of weight zero and the
  null group change nothing; the degree histogram is kept for a degree-corrected state.
\<close>

definition ps_change_vertex ::
  "level \<Rightarrow> nat \<Rightarrow> nat \<Rightarrow> int \<Rightarrow> partition_stats_t \<Rightarrow> partition_stats_t" where
  "ps_change_vertex L v r diff ps =
     (let vw = vweight L v;
          dv = vw * diff;
          ps1 = ps\<lparr>ps_actual_B :=
                      ps_actual_B ps + (if ps_total ps r = 0 \<and> dv > 0 then 1 else 0)
                        - (if ps_total ps r = vw \<and> dv < 0 then 1 else 0),
                   ps_total := (ps_total ps)(r := ps_total ps r + dv),
                   ps_N := ps_N ps + dv\<rparr>
      in if deg_corr L
         then ps1\<lparr>ps_hist := (ps_hist ps1)((r, degs L v) := ps_hist ps1 (r, degs L v) + dv),
                  ps_em := (ps_em ps1)(r := ps_em ps1 r + dv * fst (degs L v)),
                  ps_ep := (ps_ep ps1)(r := ps_ep ps1 r + dv * snd (degs L v))\<rparr>
         else ps1)"

definition ps_remove_vertex ::
  "level \<Rightarrow> nat \<Rightarrow> nat \<Rightarrow> partition_stats_t \<Rightarrow> partition_stats_t" where
  "ps_remove_vertex L v r ps =
     (if r = null_group \<or> vweight L v = 0 then ps else ps_change_vertex L v r (- 1) ps)"

definition ps_add_vertex ::
  "level \<Rightarrow> nat \<Rightarrow> nat \<Rightarrow> partition_stats_t \<Rightarrow> partition_stats_t" where
  "ps_add_vertex L v r ps =
     (if r = null_group \<or> vweight L v = 0 then ps else ps_change_vertex L v r 1 ps)"

text \<open>
  Modelled from the spec: the constructor of \<^verbatim>\<open>partition_stats\<close> for the vertices
  \<open>vs\<close> of one constraint class, which builds the counters consistently with \<open>b\<close>.
\<close>

definition new_partition_stats :: "level \<Rightarrow> nat list \<Rightarrow> partition_stats_t" where
  "new_partition_stats L vs =
     fold (\<lambda>v ps. ps_add_vertex L v (b L v) ps) vs
       \<lparr>ps_total = (\<lambda>_. 0), ps_hist = (\<lambda>_. 0), ps_em = (\<lambda>_. 0), ps_ep = (\<lambda>_. 0),
        ps_actual_B = 0, ps_N = 0, ps_E = total_E L\<rparr>"

text \<open>
  \<^verbatim>\<open>init_partition_stats\<close>: one \<^verbatim>\<open>partition_stats\<close> per constraint class
  \<open>0 .. max pclabel\<close>, over the vertices of the graph (\<^verbatim>\<open>std::max_element\<close> on a graph
  without vertices is undefined).
\<close>

definition init_partition_stats :: "level \<Rightarrow> level" where
  "init_partition_stats L =
     (let vs = [0..<num_vertices L];
          C = fold max (map (pclabel L) vs) 0 + 1
      in L\<lparr>partition_stats :=
              map (\<lambda>c. new_partition_stats L (filter (\<lambda>v. pclabel L v = c) vs)) [0..<C]\<rparr>)"


text \<open>
  \<^verbatim>\<open>get_partition_stats(v)\<close> returns a reference to the statistics of the class of
  \<open>v\<close>, after rebuilding all statistics when that class has none. The function gives the
  level after the call; the reference is entry \<open>pclabel v\<close> of its \<open>partition_stats\<close>.
\<close>

definition get_partition_stats :: "level \<Rightarrow> nat \<Rightarrow> level" where
  "get_partition_stats L v =
     (if pclabel L v \<ge> length (partition_stats L) then init_partition_stats L else L)"

text \<open>The statistics that \<^verbatim>\<open>get_partition_stats(v)\<close> leaves behind.\<close>

definition stats_of :: "level \<Rightarrow> nat \<Rightarrow> partition_stats_t list" where
  "stats_of L v = partition_stats (get_partition_stats L v)"

subsection \<open>Moving the partition node\<close>

fun set_vertex_weight :: "bstate \<Rightarrow> nat \<Rightarrow> int \<Rightarrow> bstate" where
  "set_vertex_weight (BlockState L c) v w =
     BlockState (L\<lparr>total_N := total_N L - vweight L v + w, vweight := (vweight L)(v := w)\<rparr>) c"

fun remove_partition_node :: "bstate \<Rightarrow> nat \<Rightarrow> nat \<Rightarrow> bstate" where
  "remove_partition_node (BlockState L c) v r =
     (let vacate = (vweight L v > 0 \<and> wr L r = vweight L v);
          L1 = (if vacate
                then L\<lparr>candidate_groups := candidate_groups L - {r},
                       empty_groups := insert r (empty_groups L)\<rparr>
                else L);
          c1 = (if vacate
                then (case c of
                        None \<Rightarrow> None
                      | Some H \<Rightarrow>
                          Some (set_vertex_weight
                                  (remove_partition_node H r (b (lvl H) r)) r 0))
                else c);
          L2 = L1\<lparr>wr := (wr L1)(r := wr L1 r - vweight L1 v)\<rparr>;
          L3 = get_partition_stats L2 v
      in BlockState
           (L3\<lparr>partition_stats :=
                 (partition_stats L3)
                   [pclabel L3 v := ps_remove_vertex L3 v r (partition_stats L3 ! pclabel L3 v)]\<rparr>)
           c1)"

lemma size_set_vertex_weight: "size (set_vertex_weight H v w) = size H"
  by (cases H) simp

function add_partition_node :: "bstate \<Rightarrow> nat \<Rightarrow> nat \<Rightarrow> bstate" where
  "add_partition_node (BlockState L c) v r =
     (let L1 = L\<lparr>b := (b L)(v := r)\<rparr>;
          L2 = L1\<lparr>wr := (wr L1)(r := wr L1 r + vweight L1 v)\<rparr>;
          L3 = get_partition_stats L2 v;
          L4 = L3\<lparr>partition_stats :=
                     (partition_stats L3)
                       [pclabel L3 v := ps_add_vertex L3 v r (partition_stats L3 ! pclabel L3 v)]\<rparr>
      in if vweight L4 v > 0 \<and> wr L4 r = vweight L4 v
         then BlockState
                (L4\<lparr>empty_groups := empty_groups L4 - {r},
                     candidate_groups := insert r (candidate_groups L4)\<rparr>)
                (case c of
                   None \<Rightarrow> None
                 | Some H \<Rightarrow>
                     Some (add_partition_node (set_vertex_weight H r 1) r (b (lvl H) r)))
         else BlockState L4 c)"
  by pat_completeness auto
termination
  by (relation "measure (\<lambda>(S, v, r). size S)") (auto simp: size_set_vertex_weight)

subsection \<open>Adding, removing and moving a vertex\<close>




fun allow_move :: "bstate \<Rightarrow> nat \<Rightarrow> nat \<Rightarrow> bool" where
  "allow_move (BlockState L c) r nr =
     (case c of
        None \<Rightarrow> bclabel L r = bclabel L nr
      | Some H \<Rightarrow>
          (let rr = b (lvl H) r;
               ss = b (lvl H) nr
           in if rr \<noteq> ss \<and> \<not> allow_move H rr ss then False
              else bclabel L r = bclabel L nr))"

text \<open>
  \<^verbatim>\<open>move_vertex(v, r, nr, m_entries)\<close>, and the public \<^verbatim>\<open>move_vertex(v, nr)\<close>, which
  returns the exception it throws, if any, together with the state it leaves.
\<close>

definition move_vertex_entries :: "bstate \<Rightarrow> nat \<Rightarrow> nat \<Rightarrow> nat \<Rightarrow> bstate" where
  "move_vertex_entries S v r nr =
     (if r = nr then S
      else add_partition_node (remove_partition_node (apply_delta S) v r) v nr)"

definition move_vertex :: "bstate \<Rightarrow> nat \<Rightarrow> nat \<Rightarrow> exn option \<times> bstate" where
  "move_vertex S v nr =
     (let r = b (lvl S) v
      in if r = nr then (None, S)
         else if \<not> allow_move S r nr
         then (Some (ValueException ''cannot move vertex across clabel barriers''), S)
         else (None, move_vertex_entries (get_move_entries S v r nr (\<lambda>_. False)) v r nr))"



subsection \<open>Virtual moves\<close>

text \<open>
  \<^verbatim>\<open>virtual_move\<close> returns a \<^verbatim>\<open>double\<close> that floating-point arithmetic assembles from
  helpers outside the sources at hand (\<^verbatim>\<open>entries_dS\<close>, \<^verbatim>\<open>vterm\<close>, \<^verbatim>\<open>eterm_dense\<close>,
  the deltas of \<^verbatim>\<open>partition_stats\<close>). That number is the parameter \<open>dS_value\<close> below.
  What the functions of this subsection model is everything else the call does: its
  early returns, the exception it throws and what it writes into the state. Each
  function that returns a \<^verbatim>\<open>double\<close> in the source returns here the state it leaves.
\<close>

function get_delta_partition_dl ::
  "bstate \<Rightarrow> nat \<Rightarrow> nat \<Rightarrow> nat \<Rightarrow> entropy_args \<Rightarrow> bstate" where
  "get_delta_partition_dl (BlockState L c) v r nr ea =
     (if r = nr then BlockState L c
      else
        let L1 = (if ea_partition_dl ea then get_partition_stats L v else L);
            r_vacate = (r \<noteq> null_group \<and> wr L r = vweight L v);
            nr_occupy = (nr \<noteq> null_group \<and> wr L nr = 0)
        in BlockState L1
             (case c of
                None \<Rightarrow> None
              | Some H \<Rightarrow>
                  Some
                    (if r_vacate \<and> nr_occupy
                     then get_delta_partition_dl H r (b (lvl H) r) (b (lvl H) nr)
                            (coupled_entropy_args L)
                     else
                       let H1 = (if r_vacate
                                 then get_delta_partition_dl H r (b (lvl H) r) null_group
                                        (coupled_entropy_args L)
                                 else H)
                       in if nr_occupy
                          then get_delta_partition_dl H1 nr null_group (b (lvl H1) nr)
                                 (coupled_entropy_args L)
                          else H1)))"
  by pat_completeness auto

lemma size_get_delta_partition_dl:
  "get_delta_partition_dl_dom (S, v, r, nr, ea) \<Longrightarrow>
     size (get_delta_partition_dl S v r nr ea) = size S"
  by (induction S v r nr ea rule: get_delta_partition_dl.pinduct)
     (auto simp: get_delta_partition_dl.psimps Let_def split: option.splits)

termination get_delta_partition_dl
  by (relation "measure (\<lambda>(S, v, r, nr, ea). size S)")
     (auto simp: size_get_delta_partition_dl)

text \<open>
  Modelled from the spec (invariant I3): the neighbours of block \<open>r\<close> in \<^verbatim>\<open>_bg\<close> are
  the blocks joined to it by a non-zero edge count.
\<close>

definition out_neighbors :: "level \<Rightarrow> nat \<Rightarrow> nat list" where
  "out_neighbors L r = filter (\<lambda>t. mrs L (r, t) \<noteq> 0) [0..<num_blocks L]"

definition in_neighbors :: "level \<Rightarrow> nat \<Rightarrow> nat list" where
  "in_neighbors L r = filter (\<lambda>t. mrs L (t, r) \<noteq> 0) [0..<num_blocks L]"

text \<open>
  \<^verbatim>\<open>propagate_entries_dS\<close> without edge covariates: it fills the state's own buffer with
  the entries of the level below, mapped through \<open>b\<close>, adds a zero entry for every
  neighbour of a block whose occupation changes, hands the non-zero entries to its
  coupled state, and changes nothing else. Its entropy arguments only select terms of
  the number it returns.
\<close>

fun propagate_entries_dS :: "bstate \<Rightarrow> nat \<Rightarrow> nat \<Rightarrow> int \<Rightarrow> int \<Rightarrow> entries \<Rightarrow> bstate" where
  "propagate_entries_dS (BlockState L c) u v du dv es =
     (if u = v then BlockState L c
      else
        let r = b L u;
            s = b L v;
            me0 = fold (\<lambda>((t, w), d) acc. insert_delta (b L t, b L w) d acc) es [];
            comp = (\<lambda>x acc.
                      fold (\<lambda>t acc. insert_delta (t, x) 0 acc) (in_neighbors L x)
                        (fold (\<lambda>t acc. insert_delta (x, t) 0 acc) (out_neighbors L x) acc));
            me1 = (if du \<noteq> 0 then comp r me0 else me0);
            me2 = (if dv \<noteq> 0 then comp s me1 else me1);
            dr = (if wr L r + du = 0 then - 1 else 0 :: int);
            ds = (if wr L s = 0 then 1 else 0 :: int)
        in BlockState (L\<lparr>m_entries := me2\<rparr>)
             (case c of
                None \<Rightarrow> None
              | Some H \<Rightarrow> Some (propagate_entries_dS H r s dr ds (p_entries me2))))"

definition virtual_move ::
  "(bstate \<Rightarrow> nat \<Rightarrow> nat \<Rightarrow> nat \<Rightarrow> entropy_args \<Rightarrow> dbl) \<Rightarrow>
     bstate \<Rightarrow> nat \<Rightarrow> nat \<Rightarrow> nat \<Rightarrow> entropy_args \<Rightarrow> (exn + dbl) \<times> bstate" where
  "virtual_move dS_value S v r nr ea =
     (if r = nr \<or> vweight (lvl S) v = 0 then (Inr (Finite 0), S)
      else if r \<noteq> null_group \<and> nr \<noteq> null_group \<and> \<not> allow_move S r nr then (Inr PosInf, S)
      else
        let S1 = get_move_entries S v r nr (\<lambda>_. False)
        in if ea_adjacency ea \<and> ea_dense ea \<and> deg_corr (lvl S1)
           then (Inl (GraphException
                        ''Dense entropy for degree corrected model not implemented!''), S1)
           else
             let S2 = get_delta_partition_dl S1 v r nr ea;
                 S3 = (if ea_degree_dl ea \<or> ea_edges_dl ea
                       then BlockState (get_partition_stats (lvl S2) v) (coupled_state S2)
                       else S2);
                 L3 = lvl S3;
                 S4 = (case coupled_state S3 of
                         None \<Rightarrow> S3
                       | Some H \<Rightarrow>
                           if vweight L3 v > 0
                           then
                             let es = p_entries (m_entries L3);
                                 dr = (if wr L3 r = vweight L3 v \<and> vweight L3 v > 0
                                       then - 1 else 0 :: int);
                                 dnr = (if wr L3 nr = 0 \<and> vweight L3 v > 0
                                        then 1 else 0 :: int)
                             in if es \<noteq> [] \<or> dr \<noteq> 0 \<or> dnr \<noteq> 0
                                then BlockState L3
                                       (Some (propagate_entries_dS H r nr dr dnr es))
                                else S3
                           else S3)
             in (Inr (dS_value S v r nr ea), S4))"

text \<open>
  The last two steps of \<^verbatim>\<open>virtual_move\<close> on their own, for the proofs: the lookup of the
  statistics for the degree and edge terms, and the hand-over to the coupled state.
\<close>

definition touch_stats :: "bstate \<Rightarrow> nat \<Rightarrow> entropy_args \<Rightarrow> bstate" where
  "touch_stats S2 v ea =
     (if ea_degree_dl ea \<or> ea_edges_dl ea
      then BlockState (get_partition_stats (lvl S2) v) (coupled_state S2)
      else S2)"

definition coupled_propagation :: "bstate \<Rightarrow> nat \<Rightarrow> nat \<Rightarrow> nat \<Rightarrow> bstate" where
  "coupled_propagation S3 v r nr =
     (let L3 = lvl S3
      in case coupled_state S3 of
           None \<Rightarrow> S3
         | Some H \<Rightarrow>
             if vweight L3 v > 0
             then
               let es = p_entries (m_entries L3);
                   dr = (if wr L3 r = vweight L3 v \<and> vweight L3 v > 0
                         then - 1 else 0 :: int);
                   dnr = (if wr L3 nr = 0 \<and> vweight L3 v > 0
                          then 1 else 0 :: int)
               in if es \<noteq> [] \<or> dr \<noteq> 0 \<or> dnr \<noteq> 0
                  then BlockState L3
                         (Some (propagate_entries_dS H r nr dr dnr es))
                  else S3
             else S3)"

subsection \<open>Views of a state\<close>

text \<open>
  The state without the scratch buffers, and the state without the scratch buffers and
  the partition statistics: what is left are the authoritative counters of every level.
\<close>

fun without_scratch :: "bstate \<Rightarrow> bstate" where
  "without_scratch (BlockState L c) =
     BlockState (L\<lparr>m_entries := []\<rparr>) (map_option without_scratch c)"

fun without_scratch_and_stats :: "bstate \<Rightarrow> bstate" where
  "without_scratch_and_stats (BlockState L c) =
     BlockState (L\<lparr>partition_stats := [], m_entries := []\<rparr>)
       (map_option without_scratch_and_stats c)"

text \<open>Every level holds statistics for every constraint class in use.\<close>

fun stats_initialised :: "bstate \<Rightarrow> bool" where
  "stats_initialised (BlockState L c) =
     ((\<forall>v. pclabel L v < length (partition_stats L))
      \<and> (case c of None \<Rightarrow> True | Some H \<Rightarrow> stats_initialised H))"

text \<open>
  The state without the edge counts and the scratch buffers: the assignment, the block
  sizes, the weights, the group sets and the partition statistics of every level.
\<close>

fun node_view :: "bstate \<Rightarrow> bstate" where
  "node_view (BlockState L c) =
     BlockState (L\<lparr>mrs := (\<lambda>_. 0), mrp := (\<lambda>_. 0), mrm := (\<lambda>_. 0), m_entries := []\<rparr>)
       (map_option node_view c)"

text \<open>The edge counts \<open>(mrs, mrp, mrm)\<close> of every level, lowest level first.\<close>

fun edge_counts :: "bstate \<Rightarrow> ((nat \<times> nat \<Rightarrow> int) \<times> (nat \<Rightarrow> int) \<times> (nat \<Rightarrow> int)) list" where
  "edge_counts (BlockState L c) =
     (mrs L, mrp L, mrm L) # (case c of None \<Rightarrow> [] | Some H \<Rightarrow> edge_counts H)"

text \<open>The assignment \<open>b\<close> of every level, lowest level first.\<close>

fun assignments :: "bstate \<Rightarrow> (nat \<Rightarrow> nat) list" where
  "assignments (BlockState L c) =
     b L # (case c of None \<Rightarrow> [] | Some H \<Rightarrow> assignments H)"

subsection \<open>Invariants\<close>

text \<open>
  Invariant I4 of one level: the empty and the candidate groups partition the block ids
  of \<^verbatim>\<open>_bg\<close>, and a block is empty iff its size is zero. \<open>I4_all\<close> is I4 at every
  level.
\<close>

definition I4 :: "level \<Rightarrow> bool" where
  "I4 L \<longleftrightarrow>
     empty_groups L \<union> candidate_groups L = {0..<num_blocks L}
     \<and> empty_groups L \<inter> candidate_groups L = {}
     \<and> (\<forall>r<num_blocks L. r \<in> empty_groups L \<longleftrightarrow> wr L r = 0)"

fun I4_all :: "bstate \<Rightarrow> bool" where
  "I4_all (BlockState L c) = (I4 L \<and> (case c of None \<Rightarrow> True | Some H \<Rightarrow> I4_all H))"

text \<open>
  Well-formedness of the sizes: weights and block sizes are not negative, and every
  vertex is assigned to a block of \<^verbatim>\<open>_bg\<close>.
\<close>

fun well_formed :: "bstate \<Rightarrow> bool" where
  "well_formed (BlockState L c) =
     ((\<forall>v. 0 \<le> vweight L v) \<and> (\<forall>r. 0 \<le> wr L r) \<and> (\<forall>v. b L v < num_blocks L)
      \<and> (case c of None \<Rightarrow> True | Some H \<Rightarrow> well_formed H))"

text \<open>
  Vertex \<open>v\<close> is counted in its block: the size of the block includes its weight; and
  where removing it empties the block, the block is counted in its own block of the
  coupled state.
\<close>

fun counted :: "bstate \<Rightarrow> nat \<Rightarrow> bool" where
  "counted (BlockState L c) v =
     (vweight L v \<le> wr L (b L v)
      \<and> (vweight L v > 0 \<and> wr L (b L v) = vweight L v \<longrightarrow>
           (case c of None \<Rightarrow> True | Some H \<Rightarrow> counted H (b L v))))"

text \<open>
  The coupling invariant I5 on the weights: in the coupled state an occupied block of
  the level below is a vertex of weight \<open>1\<close>.
\<close>

fun coupled_weights :: "bstate \<Rightarrow> bool" where
  "coupled_weights (BlockState L c) =
     (case c of
        None \<Rightarrow> True
      | Some H \<Rightarrow> (\<forall>r. wr L r > 0 \<longrightarrow> vweight (lvl H) r = 1) \<and> coupled_weights H)"




subsection \<open>Public operations\<close>




subsection \<open>Example states\<close>

text \<open>
  A directed triangle \<open>0 \<rightarrow> 1 \<rightarrow> 2 \<rightarrow> 0\<close> with unit weights and \<open>b = [0, 0, 1]\<close>; block
  \<open>2\<close> exists and is empty. \<open>triangle\<close> is the state as the constructor leaves it,
  with its partition statistics built.
\<close>

definition ea_all :: entropy_args where
  "ea_all =
     \<lparr>ea_adjacency = True, ea_dense = False, ea_multigraph = True, ea_exact = True,
      ea_deg_entropy = True, ea_partition_dl = True, ea_degree_dl = True,
      ea_degree_dl_kind = 1, ea_edges_dl = True, ea_recs = False, ea_Bfield = True,
      ea_beta_dl = 1\<rparr>"

definition triangle_counters :: level where
  "triangle_counters =
     \<lparr>num_vertices = 3,
      g_edges = [(0, 1, 1), (1, 2, 1), (2, 0, 1)],
      num_blocks = 3,
      b = (\<lambda>_. 0)(2 := 1),
      vweight = (\<lambda>_. 1),
      degs = (\<lambda>_. (1, 1)),
      wr = (\<lambda>_. 0)(0 := 2, 1 := 1),
      mrs = (\<lambda>_. 0)((0, 0) := 1, (0, 1) := 1, (1, 0) := 1),
      mrp = (\<lambda>_. 0)(0 := 2, 1 := 1),
      mrm = (\<lambda>_. 0)(0 := 2, 1 := 1),
      bclabel = (\<lambda>_. 0),
      pclabel = (\<lambda>_. 0),
      deg_corr = False,
      total_N = 3,
      total_E = 3,
      empty_groups = {2},
      candidate_groups = {0, 1},
      partition_stats = [],
      m_entries = [],
      coupled_entropy_args = ea_all\<rparr>"

definition triangle :: level where
  "triangle = init_partition_stats triangle_counters"

text \<open>The triangle with a constraint barrier between blocks \<open>0\<close> and \<open>1\<close>.\<close>

definition triangle_barrier :: level where
  "triangle_barrier = triangle\<lparr>bclabel := (\<lambda>_. 0)(1 := 1)\<rparr>"

text \<open>
  The level above the triangle: its vertices are the three blocks, of weight \<open>1\<close> when
  occupied, all in its block \<open>0\<close>; its block \<open>1\<close> is empty.
\<close>

definition triangle_upper :: level where
  "triangle_upper =
     init_partition_stats
       \<lparr>num_vertices = 3,
        g_edges = [(0, 0, 1), (0, 1, 1), (1, 0, 1)],
        num_blocks = 2,
        b = (\<lambda>_. 0),
        vweight = (\<lambda>_. 0)(0 := 1, 1 := 1),
        degs = (\<lambda>_. (0, 0))(0 := (2, 2), 1 := (1, 1)),
        wr = (\<lambda>_. 0)(0 := 2),
        mrs = (\<lambda>_. 0)((0, 0) := 3),
        mrp = (\<lambda>_. 0)(0 := 3),
        mrm = (\<lambda>_. 0)(0 := 3),
        bclabel = (\<lambda>_. 0),
        pclabel = (\<lambda>_. 0),
        deg_corr = False,
        total_N = 2,
        total_E = 3,
        empty_groups = {1},
        candidate_groups = {0},
        partition_stats = [],
        m_entries = [],
        coupled_entropy_args = ea_all\<rparr>"

definition nested_triangle :: bstate where
  "nested_triangle = BlockState triangle (Some (BlockState triangle_upper None))"

text \<open>
  The triangle with vertex \<open>2\<close> of weight zero, so that block \<open>1\<close> is empty although the
  edges of vertex \<open>2\<close> are counted there, and with a fourth vertex of weight zero that has
  no edges.
\<close>

definition zero_weight_triangle :: level where
  "zero_weight_triangle =
     init_partition_stats
       (triangle_counters
          \<lparr>num_vertices := 4,
           vweight := (\<lambda>_. 1)(2 := 0, 3 := 0),
           wr := (\<lambda>_. 0)(0 := 2),
           total_N := 2,
           empty_groups := {1, 2},
           candidate_groups := {0}\<rparr>)"

section \<open>Theorems\<close>

subsection \<open>Restricted integer partitions\<close>

text \<open>
  Claim C9, as stated, fails below the cache bound when \<open>k > n\<close>: \<^verbatim>\<open>log_q 3 5\<close> returns
  the entry \<open>[3][3]\<close> (it clamps \<open>k\<close> to \<open>n\<close>), not the entry \<open>[3][5]\<close>; and for
  \<open>k < 1\<close> it returns \<open>0\<close> without reading the cache.
\<close>

theorem log_q_cached_counterexample:
  "fst (log_q q_cache_example (\<lambda>n k. Finite 0) 3 5) \<noteq> data q_cache_example 3 5
   \<and> fst (log_q q_cache_example (\<lambda>n k. Finite 0) 3 0) \<noteq> data q_cache_example 3 0"
  by (simp add: log_q_def q_cache_example_def)

text \<open>
  Claim C9, amended: \<^verbatim>\<open>log_q n k\<close> returns \<open>0\<close> when \<open>n \<le> 0\<close> or \<open>k < 1\<close>; otherwise, with
  \<open>k\<close> clamped to \<open>n\<close>, it returns the cached entry \<open>[n][min k n]\<close> when \<open>n\<close> is below the
  cache bound and the value of \<^verbatim>\<open>log_q_approx n (min k n)\<close> when \<open>n\<close> is at or beyond it.
  The cache is never modified.
\<close>

theorem log_q_result:
  "log_q cache log_q_approx n k =
     ((if n \<le> 0 \<or> k < 1 then Finite 0
       else if nat n < shape0 cache then data cache (nat n) (nat (min k n))
       else log_q_approx (nat n) (nat (min k n))),
      cache)"
  by (simp add: log_q_def Let_def min_def)

subsection \<open>Log-binomials\<close>

text \<open>
  Claim C10: when \<open>N = 0\<close> or \<open>k = 0\<close> or \<open>k \<ge> N\<close>, the three log-binomial helpers
  \<^verbatim>\<open>lbinom\<close>, \<^verbatim>\<open>lbinom_fast\<close> and \<^verbatim>\<open>lbinom_careful\<close> return exactly \<open>0\<close>; this
  includes \<open>k > N\<close>, where the binomial coefficient is zero.
\<close>

theorem lbinom_guard_zero:
  "N = 0 \<or> k = 0 \<or> k \<ge> N \<Longrightarrow>
     lbinom lgamma N k = 0 \<and> lbinom_fast lgamma_fast N k = 0
     \<and> lbinom_careful lgamma log1p logf N k = 0"
  by (simp add: lbinom_def lbinom_fast_def lbinom_careful_def)

theorem lbinom_guard_zero_witness:
  "((3::int) = 0 \<or> (5::int) = 0 \<or> (5::int) \<ge> 3)
   \<and> lbinom (\<lambda>x. x) 3 5 = 0 \<and> lbinom_fast (\<lambda>x. x) 3 5 = 0
   \<and> lbinom_careful (\<lambda>x. x) (\<lambda>x. x) (\<lambda>x. x) 3 5 = 0"
  using lbinom_guard_zero [of 3 5 "\<lambda>x. x" "\<lambda>x. x" "\<lambda>x. x" "\<lambda>x. x"] by simp

subsection \<open>The example states\<close>

lemma init_partition_stats_fields [simp]:
  "num_vertices (init_partition_stats L) = num_vertices L"
  "g_edges (init_partition_stats L) = g_edges L"
  "num_blocks (init_partition_stats L) = num_blocks L"
  "b (init_partition_stats L) = b L"
  "vweight (init_partition_stats L) = vweight L"
  "degs (init_partition_stats L) = degs L"
  "wr (init_partition_stats L) = wr L"
  "mrs (init_partition_stats L) = mrs L"
  "mrp (init_partition_stats L) = mrp L"
  "mrm (init_partition_stats L) = mrm L"
  "bclabel (init_partition_stats L) = bclabel L"
  "pclabel (init_partition_stats L) = pclabel L"
  "deg_corr (init_partition_stats L) = deg_corr L"
  "total_N (init_partition_stats L) = total_N L"
  "total_E (init_partition_stats L) = total_E L"
  "empty_groups (init_partition_stats L) = empty_groups L"
  "candidate_groups (init_partition_stats L) = candidate_groups L"
  "m_entries (init_partition_stats L) = m_entries L"
  "coupled_entropy_args (init_partition_stats L) = coupled_entropy_args L"
  by (simp_all add: init_partition_stats_def Let_def)

lemma length_init_partition_stats:
  "length (partition_stats (init_partition_stats L)) =
     fold max (map (pclabel L) [0..<num_vertices L]) 0 + 1"
  by (simp add: init_partition_stats_def Let_def)

lemma triangle_fields [simp]:
  "num_vertices triangle = 3"
  "g_edges triangle = [(0, 1, 1), (1, 2, 1), (2, 0, 1)]"
  "num_blocks triangle = 3"
  "b triangle = (\<lambda>_. 0)(2 := 1)"
  "vweight triangle = (\<lambda>_. 1)"
  "degs triangle = (\<lambda>_. (1, 1))"
  "wr triangle = (\<lambda>_. 0)(0 := 2, 1 := 1)"
  "mrs triangle = (\<lambda>_. 0)((0, 0) := 1, (0, 1) := 1, (1, 0) := 1)"
  "mrp triangle = (\<lambda>_. 0)(0 := 2, 1 := 1)"
  "mrm triangle = (\<lambda>_. 0)(0 := 2, 1 := 1)"
  "bclabel triangle = (\<lambda>_. 0)"
  "pclabel triangle = (\<lambda>_. 0)"
  "deg_corr triangle = False"
  "total_N triangle = 3"
  "total_E triangle = 3"
  "empty_groups triangle = {2}"
  "candidate_groups triangle = {0, 1}"
  "m_entries triangle = []"
  "coupled_entropy_args triangle = ea_all"
  by (simp_all add: triangle_def triangle_counters_def)

lemma length_stats_triangle [simp]: "length (partition_stats triangle) = 1"
  by (simp add: triangle_def length_init_partition_stats triangle_counters_def numeral_3_eq_3)

subsection \<open>Constraint barriers\<close>

text \<open>
  Claim C2: \<^verbatim>\<open>allow_move(r, nr)\<close> succeeds iff \<open>bclabel[r] = bclabel[nr]\<close> and, when a
  coupled state is installed, the blocks of \<open>r\<close> and \<open>nr\<close> in it are equal or the coupled
  state allows the move between them. For \<open>r = b[v] \<noteq> nr\<close>, \<^verbatim>\<open>move_vertex(v, nr)\<close> throws
  the barrier exception exactly when \<^verbatim>\<open>allow_move(r, nr)\<close> fails, and then leaves the
  state as it was.
\<close>

theorem allow_move_barrier:
  "(allow_move (BlockState L c) r nr \<longleftrightarrow>
      bclabel L r = bclabel L nr
      \<and> (case c of None \<Rightarrow> True
         | Some H \<Rightarrow> b (lvl H) r = b (lvl H) nr \<or> allow_move H (b (lvl H) r) (b (lvl H) nr)))
   \<and> (b (lvl S) v \<noteq> nr \<longrightarrow>
        fst (move_vertex S v nr) =
          (if allow_move S (b (lvl S) v) nr then None
           else Some (ValueException ''cannot move vertex across clabel barriers''))
        \<and> (\<not> allow_move S (b (lvl S) v) nr \<longrightarrow> snd (move_vertex S v nr) = S))"
proof (intro conjI impI)
  show "allow_move (BlockState L c) r nr \<longleftrightarrow>
      bclabel L r = bclabel L nr
      \<and> (case c of None \<Rightarrow> True
         | Some H \<Rightarrow> b (lvl H) r = b (lvl H) nr \<or> allow_move H (b (lvl H) r) (b (lvl H) nr))"
    by (auto simp: Let_def split: option.splits)
next
  assume "b (lvl S) v \<noteq> nr"
  then show "fst (move_vertex S v nr) =
          (if allow_move S (b (lvl S) v) nr then None
           else Some (ValueException ''cannot move vertex across clabel barriers''))"
    by (simp add: move_vertex_def Let_def)
next
  assume "b (lvl S) v \<noteq> nr" and "\<not> allow_move S (b (lvl S) v) nr"
  then show "snd (move_vertex S v nr) = S"
    by (simp add: move_vertex_def Let_def)
qed

theorem allow_move_barrier_witness:
  "b (lvl (BlockState triangle_barrier None)) 2 \<noteq> 0
   \<and> \<not> allow_move (BlockState triangle_barrier None) 1 0
   \<and> move_vertex (BlockState triangle_barrier None) 2 0 =
       (Some (ValueException ''cannot move vertex across clabel barriers''),
        BlockState triangle_barrier None)
   \<and> allow_move (BlockState triangle None) 1 0
   \<and> fst (move_vertex (BlockState triangle None) 2 0) = None"
  using allow_move_barrier [where L = triangle_barrier and c = None and r = 1 and nr = 0
          and S = "BlockState triangle_barrier None" and v = 2]
        allow_move_barrier [where L = triangle and c = None and r = 1 and nr = 0
          and S = "BlockState triangle None" and v = 2]
  by (simp add: triangle_barrier_def prod_eq_iff)

subsection \<open>Virtual moves: returns and exceptions\<close>

lemma lvl_get_move_entries [simp]:
  "lvl (get_move_entries S v r nr efilt) =
     (lvl S)\<lparr>m_entries := move_entries v r nr (b (lvl S)) (g_edges (lvl S)) efilt\<rparr>"
  "coupled_state (get_move_entries S v r nr efilt) = coupled_state S"
  by (cases S; simp)+

text \<open>
  Claim C3, as stated, fails twice. \<^verbatim>\<open>virtual_move\<close> does raise: with the dense
  adjacency term on a degree-corrected state it throws the exception of
  \<^verbatim>\<open>virtual_move_dense\<close>. And for a vertex of weight zero it returns \<open>0\<close> before it looks
  at the barrier, so a disallowed move between two blocks does not always give \<open>+\<infinity>\<close>.
\<close>

theorem virtual_move_counterexample:
  "fst (virtual_move (\<lambda>S v r nr ea. Finite 1) (BlockState (triangle\<lparr>deg_corr := True\<rparr>) None)
          2 1 0 (ea_all\<lparr>ea_dense := True\<rparr>))
     = Inl (GraphException ''Dense entropy for degree corrected model not implemented!'')
   \<and> (1 \<noteq> null_group \<and> 0 \<noteq> null_group
      \<and> \<not> allow_move (BlockState (triangle_barrier\<lparr>vweight := (\<lambda>_. 1)(2 := 0)\<rparr>) None) 1 0
      \<and> fst (virtual_move (\<lambda>S v r nr ea. Finite 1)
                (BlockState (triangle_barrier\<lparr>vweight := (\<lambda>_. 1)(2 := 0)\<rparr>) None) 2 1 0 ea_all)
          \<noteq> Inr PosInf)"
  by (simp add: virtual_move_def ea_all_def null_group_def triangle_barrier_def)

text \<open>
  Claim C3, amended: \<^verbatim>\<open>virtual_move(v, r, nr, ea)\<close> returns \<open>0\<close> and leaves the state
  alone when \<open>r = nr\<close> or \<open>vweight[v] = 0\<close>; otherwise it returns \<open>+\<infinity>\<close> and leaves the state
  alone when \<open>r\<close> and \<open>nr\<close> are both non-null and \<^verbatim>\<open>allow_move(r, nr)\<close> fails. It never
  throws the barrier exception: it throws exactly when the move passes both checks and
  the dense adjacency term is asked of a degree-corrected state, and then the exception
  is the one for the unsupported dense entropy.
\<close>

theorem virtual_move_guards:
  "(r = nr \<or> vweight (lvl S) v = 0 \<longrightarrow> virtual_move dS_value S v r nr ea = (Inr (Finite 0), S))
   \<and> (r \<noteq> nr \<and> vweight (lvl S) v \<noteq> 0 \<and> r \<noteq> null_group \<and> nr \<noteq> null_group
        \<and> \<not> allow_move S r nr \<longrightarrow>
      virtual_move dS_value S v r nr ea = (Inr PosInf, S))
   \<and> ((\<exists>e. fst (virtual_move dS_value S v r nr ea) = Inl e) \<longleftrightarrow>
        r \<noteq> nr \<and> vweight (lvl S) v \<noteq> 0
        \<and> (r = null_group \<or> nr = null_group \<or> allow_move S r nr)
        \<and> ea_adjacency ea \<and> ea_dense ea \<and> deg_corr (lvl S))
   \<and> (\<forall>e. fst (virtual_move dS_value S v r nr ea) = Inl e \<longrightarrow>
        e = GraphException ''Dense entropy for degree corrected model not implemented!'')"
  by (auto simp: virtual_move_def Let_def)

theorem virtual_move_guards_witness:
  "virtual_move (\<lambda>S v r nr ea. Finite 1) (BlockState triangle_barrier None) 2 1 1 ea_all
     = (Inr (Finite 0), BlockState triangle_barrier None)
   \<and> virtual_move (\<lambda>S v r nr ea. Finite 1) (BlockState triangle_barrier None) 2 1 0 ea_all
     = (Inr PosInf, BlockState triangle_barrier None)
   \<and> (\<exists>e. fst (virtual_move (\<lambda>S v r nr ea. Finite 1) (BlockState (triangle\<lparr>deg_corr := True\<rparr>) None)
          2 1 0 (ea_all\<lparr>ea_dense := True\<rparr>)) = Inl e)"
  using virtual_move_guards [of 1 1 "BlockState triangle_barrier None" 2 "\<lambda>S v r nr ea. Finite 1" ea_all]
    virtual_move_guards [of 1 0 "BlockState triangle_barrier None" 2 "\<lambda>S v r nr ea. Finite 1" ea_all]
    virtual_move_guards [of 1 0 "BlockState (triangle\<lparr>deg_corr := True\<rparr>) None" 2
       "\<lambda>S v r nr ea. Finite 1" "ea_all\<lparr>ea_dense := True\<rparr>"]
  by (simp add: triangle_barrier_def null_group_def ea_all_def)

subsection \<open>Virtual moves: what they write\<close>

lemma get_partition_stats_frame:
  "(get_partition_stats L v)\<lparr>partition_stats := ps\<rparr> = L\<lparr>partition_stats := ps\<rparr>"
  by (simp add: get_partition_stats_def init_partition_stats_def Let_def)


lemma wss_get_move_entries [simp]:
  "without_scratch_and_stats (get_move_entries S v r nr efilt) = without_scratch_and_stats S"
  by (cases S) simp

lemma ws_get_move_entries [simp]:
  "without_scratch (get_move_entries S v r nr efilt) = without_scratch S"
  by (cases S) simp

lemma wss_level_stats:
  "without_scratch_and_stats (BlockState (get_partition_stats L v) c) =
     without_scratch_and_stats (BlockState L c)"
  by (simp add: get_partition_stats_def init_partition_stats_def Let_def)

lemma wss_get_delta_partition_dl [simp]:
  "without_scratch_and_stats (get_delta_partition_dl S v r nr ea) = without_scratch_and_stats S"
proof (induction S v r nr ea rule: get_delta_partition_dl.induct)
  case (1 L c v r nr ea)
  show ?case
  proof (cases "r = nr")
    case True
    then show ?thesis by simp
  next
    case False
    show ?thesis
    proof (cases c)
      case None
      with False show ?thesis
        by (simp add: Let_def get_partition_stats_def init_partition_stats_def)
    next
      case (Some H)
      define rv where "rv = (r \<noteq> null_group \<and> wr L r = vweight L v)"
      define no where "no = (nr \<noteq> null_group \<and> wr L nr = 0)"
      define cea where "cea = coupled_entropy_args L"
      define H1 where "H1 = (if rv then get_delta_partition_dl H r (b (lvl H) r) null_group cea else H)"
      have i1: "without_scratch_and_stats (get_delta_partition_dl H r (b (lvl H) r) (b (lvl H) nr) cea)
            = without_scratch_and_stats H" if "rv \<and> no"
        using "1.IH"(1) [OF False refl refl refl Some] that
        unfolding rv_def no_def cea_def by blast
      have i2: "without_scratch_and_stats (get_delta_partition_dl H r (b (lvl H) r) null_group cea)
            = without_scratch_and_stats H" if "\<not> (rv \<and> no)" "rv"
        using "1.IH"(2) [OF False refl refl refl Some] that
        unfolding rv_def no_def cea_def by blast
      have i3: "without_scratch_and_stats (get_delta_partition_dl H1 nr null_group (b (lvl H1) nr) cea)
            = without_scratch_and_stats H1" if "\<not> (rv \<and> no)" "no"
        using "1.IH"(3) [OF False refl refl refl Some _ refl] that
        unfolding rv_def no_def cea_def H1_def by blast
      have h1: "\<not> (rv \<and> no) \<Longrightarrow> without_scratch_and_stats H1 = without_scratch_and_stats H"
        using i2 by (simp add: H1_def)
      have eq: "get_delta_partition_dl (BlockState L c) v r nr ea =
          BlockState (if ea_partition_dl ea then get_partition_stats L v else L)
            (Some (if rv \<and> no
                   then get_delta_partition_dl H r (b (lvl H) r) (b (lvl H) nr) cea
                   else if no then get_delta_partition_dl H1 nr null_group (b (lvl H1) nr) cea
                   else H1))"
        using False Some by (simp add: Let_def rv_def no_def cea_def H1_def)
      show ?thesis
        unfolding eq using i1 i3 h1
        by (simp add: get_partition_stats_def init_partition_stats_def Let_def Some)
    qed
  qed
qed


lemma wss_propagate_entries_dS [simp]:
  "without_scratch_and_stats (propagate_entries_dS H u v du dv es) = without_scratch_and_stats H"
proof (induction H arbitrary: u v du dv es)
  case (BlockState L c)
  show ?case
  proof (cases "u = v")
    case True
    then show ?thesis by simp
  next
    case False
    then show ?thesis
      by (cases c) (simp_all add: Let_def BlockState.IH split del: if_split)
  qed
qed

lemma ws_propagate_entries_dS [simp]:
  "without_scratch (propagate_entries_dS H u v du dv es) = without_scratch H"
proof (induction H arbitrary: u v du dv es)
  case (BlockState L c)
  show ?case
  proof (cases "u = v")
    case True
    then show ?thesis by simp
  next
    case False
    then show ?thesis
      by (cases c) (simp_all add: Let_def BlockState.IH split del: if_split)
  qed
qed



lemma wss_touch_stats [simp]:
  "without_scratch_and_stats (touch_stats S v ea) = without_scratch_and_stats S"
  by (cases S) (simp add: touch_stats_def get_partition_stats_def init_partition_stats_def Let_def)


lemma wss_coupled_propagation [simp]:
  "without_scratch_and_stats (coupled_propagation S v r nr) = without_scratch_and_stats S"
  by (cases S) (simp add: coupled_propagation_def Let_def split: option.splits)

lemma ws_coupled_propagation [simp]:
  "without_scratch (coupled_propagation S v r nr) = without_scratch S"
  by (cases S) (simp add: coupled_propagation_def Let_def split: option.splits)

lemma stats_initialised_get_move_entries [simp]:
  "stats_initialised (get_move_entries S v r nr efilt) = stats_initialised S"
  by (cases S) simp




subsection \<open>The partition node operations\<close>

lemma get_partition_stats_fields [simp]:
  "num_vertices (get_partition_stats L v) = num_vertices L"
  "g_edges (get_partition_stats L v) = g_edges L"
  "num_blocks (get_partition_stats L v) = num_blocks L"
  "b (get_partition_stats L v) = b L"
  "vweight (get_partition_stats L v) = vweight L"
  "degs (get_partition_stats L v) = degs L"
  "wr (get_partition_stats L v) = wr L"
  "mrs (get_partition_stats L v) = mrs L"
  "mrp (get_partition_stats L v) = mrp L"
  "mrm (get_partition_stats L v) = mrm L"
  "bclabel (get_partition_stats L v) = bclabel L"
  "pclabel (get_partition_stats L v) = pclabel L"
  "deg_corr (get_partition_stats L v) = deg_corr L"
  "total_N (get_partition_stats L v) = total_N L"
  "total_E (get_partition_stats L v) = total_E L"
  "empty_groups (get_partition_stats L v) = empty_groups L"
  "candidate_groups (get_partition_stats L v) = candidate_groups L"
  "m_entries (get_partition_stats L v) = m_entries L"
  "coupled_entropy_args (get_partition_stats L v) = coupled_entropy_args L"
  by (simp_all add: get_partition_stats_def)

text \<open>The fields of the lowest level after the node operations.\<close>

lemma remove_partition_node_lvl:
  "wr (lvl (remove_partition_node (BlockState L c) v r)) = (wr L)(r := wr L r - vweight L v)"
  "empty_groups (lvl (remove_partition_node (BlockState L c) v r)) =
     (if vweight L v > 0 \<and> wr L r = vweight L v then insert r (empty_groups L) else empty_groups L)"
  "candidate_groups (lvl (remove_partition_node (BlockState L c) v r)) =
     (if vweight L v > 0 \<and> wr L r = vweight L v then candidate_groups L - {r}
      else candidate_groups L)"
  "num_blocks (lvl (remove_partition_node (BlockState L c) v r)) = num_blocks L"
  "vweight (lvl (remove_partition_node (BlockState L c) v r)) = vweight L"
  "b (lvl (remove_partition_node (BlockState L c) v r)) = b L"
  by (simp_all add: Let_def)

lemma remove_partition_node_coupled:
  "coupled_state (remove_partition_node (BlockState L c) v r) =
     (if vweight L v > 0 \<and> wr L r = vweight L v
      then map_option (\<lambda>H. set_vertex_weight (remove_partition_node H r (b (lvl H) r)) r 0) c
      else c)"
  by (cases c) (simp_all add: Let_def)

lemma add_partition_node_lvl:
  "wr (lvl (add_partition_node (BlockState L c) v r)) = (wr L)(r := wr L r + vweight L v)"
  "empty_groups (lvl (add_partition_node (BlockState L c) v r)) =
     (if vweight L v > 0 \<and> wr L r = 0 then empty_groups L - {r} else empty_groups L)"
  "candidate_groups (lvl (add_partition_node (BlockState L c) v r)) =
     (if vweight L v > 0 \<and> wr L r = 0 then insert r (candidate_groups L)
      else candidate_groups L)"
  "num_blocks (lvl (add_partition_node (BlockState L c) v r)) = num_blocks L"
  "vweight (lvl (add_partition_node (BlockState L c) v r)) = vweight L"
  "b (lvl (add_partition_node (BlockState L c) v r)) = (b L)(v := r)"
  by (simp_all add: Let_def)

lemma add_partition_node_coupled:
  "coupled_state (add_partition_node (BlockState L c) v r) =
     (if vweight L v > 0 \<and> wr L r = 0
      then map_option (\<lambda>H. add_partition_node (set_vertex_weight H r 1) r (b (lvl H) r)) c
      else c)"
  by (cases c) (simp_all add: Let_def)

declare remove_partition_node.simps [simp del] add_partition_node.simps [simp del]

lemma bstate_collapse: "BlockState (lvl S) (coupled_state S) = S"
  by (cases S) simp



lemma I4_all_set_vertex_weight [simp]:
  "I4_all (set_vertex_weight S v w) = I4_all S"
  by (cases S) (simp add: I4_def)


lemma lvl_set_vertex_weight [simp]:
  "b (lvl (set_vertex_weight S v w)) = b (lvl S)"
  "wr (lvl (set_vertex_weight S v w)) = wr (lvl S)"
  "num_blocks (lvl (set_vertex_weight S v w)) = num_blocks (lvl S)"
  "vweight (lvl (set_vertex_weight S v w)) = (vweight (lvl S))(v := w)"
  by (cases S; simp)+





subsection \<open>Edge counts and node counters are separate\<close>

lemma fold_apply_entry_frame:
  "(fold apply_entry es L)\<lparr>mrs := x, mrp := y, mrm := z\<rparr> = L\<lparr>mrs := x, mrp := y, mrm := z\<rparr>"
proof (induction es arbitrary: L)
  case Nil
  show ?case by simp
next
  case (Cons e es)
  obtain r s d where e: "e = ((r, s), d)" by (metis surj_pair)
  show ?case by (simp add: e Cons.IH)
qed

lemma node_view_level:
  "map_option node_view c' = map_option node_view c \<Longrightarrow>
     node_view (BlockState (fold apply_entry es L) c') = node_view (BlockState L c)"
  using fold_apply_entry_frame [where es = es and L = L and x = "\<lambda>_. 0" and y = "\<lambda>_. 0"
      and z = "\<lambda>_. 0"]
  by simp

lemma node_view_get_move_entries [simp]:
  "node_view (get_move_entries S v r nr efilt) = node_view S"
  by (cases S) simp

lemma node_view_apply_delta [simp]:
  "node_view (apply_delta S) = node_view S"
  "node_view (propagate_delta H es) = node_view H"
proof (induction S and H es rule: apply_delta_propagate_delta.induct)
  case (1 L c)
  show ?case
  proof (cases c)
    case None
    then show ?thesis
      using node_view_level [of None None "m_entries L" L] by simp
  next
    case (Some H)
    show ?thesis
    proof (cases "p_entries (m_entries L) = []")
      case True
      with Some show ?thesis
        using node_view_level [of "Some H" "Some H" "m_entries L" L] by simp
    next
      case False
      with Some 1 have "node_view (propagate_delta H (p_entries (m_entries L))) = node_view H"
        by simp
      with Some False show ?thesis
        using node_view_level [of "Some (propagate_delta H (p_entries (m_entries L)))" "Some H"
            "m_entries L" L]
        by simp
    qed
  qed
next
  case (2 L c es)
  then show ?case by simp
qed

declare apply_delta.simps [simp del] propagate_delta.simps [simp del]

lemma node_view_fields [simp]:
  "b (lvl (node_view S)) = b (lvl S)"
  "wr (lvl (node_view S)) = wr (lvl S)"
  "vweight (lvl (node_view S)) = vweight (lvl S)"
  "num_blocks (lvl (node_view S)) = num_blocks (lvl S)"
  "empty_groups (lvl (node_view S)) = empty_groups (lvl S)"
  "candidate_groups (lvl (node_view S)) = candidate_groups (lvl S)"
  "partition_stats (lvl (node_view S)) = partition_stats (lvl S)"
  "pclabel (lvl (node_view S)) = pclabel (lvl S)"
  by (cases S; simp)+

lemma I4_all_node_view [simp]: "I4_all (node_view S) = I4_all S"
  by (induction S) (auto simp: I4_def split: option.splits)

lemma well_formed_node_view [simp]: "well_formed (node_view S) = well_formed S"
  by (induction S) (auto split: option.splits)

lemma counted_node_view [simp]: "counted (node_view S) v = counted S v"
  by (induction S arbitrary: v) (auto split: option.splits)

lemma node_view_transfer:
  assumes "node_view X = node_view S"
  shows "I4_all X = I4_all S" "well_formed X = well_formed S" "counted X v = counted S v"
    "b (lvl X) = b (lvl S)" "wr (lvl X) = wr (lvl S)" "vweight (lvl X) = vweight (lvl S)"
    "num_blocks (lvl X) = num_blocks (lvl S)"
    "empty_groups (lvl X) = empty_groups (lvl S)"
    "candidate_groups (lvl X) = candidate_groups (lvl S)"
proof -
  show "I4_all X = I4_all S" using I4_all_node_view [of X] I4_all_node_view [of S] assms by simp
  show "well_formed X = well_formed S"
    using well_formed_node_view [of X] well_formed_node_view [of S] assms by simp
  show "counted X v = counted S v"
    using counted_node_view [of X v] counted_node_view [of S v] assms by simp
  show "b (lvl X) = b (lvl S)" using node_view_fields(1) [of X] assms by simp
  show "wr (lvl X) = wr (lvl S)" using node_view_fields(2) [of X] assms by simp
  show "vweight (lvl X) = vweight (lvl S)" using node_view_fields(3) [of X] assms by simp
  show "num_blocks (lvl X) = num_blocks (lvl S)" using node_view_fields(4) [of X] assms by simp
  show "empty_groups (lvl X) = empty_groups (lvl S)"
    using node_view_fields(5) [of X] assms by simp
  show "candidate_groups (lvl X) = candidate_groups (lvl S)"
    using node_view_fields(6) [of X] assms by simp
qed


lemma rpn_lvl:
  "wr (lvl (remove_partition_node S v r)) = (wr (lvl S))(r := wr (lvl S) r - vweight (lvl S) v)"
  "empty_groups (lvl (remove_partition_node S v r)) =
     (if vweight (lvl S) v > 0 \<and> wr (lvl S) r = vweight (lvl S) v
      then insert r (empty_groups (lvl S)) else empty_groups (lvl S))"
  "candidate_groups (lvl (remove_partition_node S v r)) =
     (if vweight (lvl S) v > 0 \<and> wr (lvl S) r = vweight (lvl S) v
      then candidate_groups (lvl S) - {r} else candidate_groups (lvl S))"
  "num_blocks (lvl (remove_partition_node S v r)) = num_blocks (lvl S)"
  "vweight (lvl (remove_partition_node S v r)) = vweight (lvl S)"
  "b (lvl (remove_partition_node S v r)) = b (lvl S)"
  by (cases S; simp add: remove_partition_node_lvl)+

lemma apn_lvl:
  "wr (lvl (add_partition_node S v r)) = (wr (lvl S))(r := wr (lvl S) r + vweight (lvl S) v)"
  "empty_groups (lvl (add_partition_node S v r)) =
     (if vweight (lvl S) v > 0 \<and> wr (lvl S) r = 0
      then empty_groups (lvl S) - {r} else empty_groups (lvl S))"
  "candidate_groups (lvl (add_partition_node S v r)) =
     (if vweight (lvl S) v > 0 \<and> wr (lvl S) r = 0
      then insert r (candidate_groups (lvl S)) else candidate_groups (lvl S))"
  "num_blocks (lvl (add_partition_node S v r)) = num_blocks (lvl S)"
  "vweight (lvl (add_partition_node S v r)) = vweight (lvl S)"
  "b (lvl (add_partition_node S v r)) = (b (lvl S))(v := r)"
  by (cases S; simp add: add_partition_node_lvl)+


lemma triangle_upper_fields [simp]:
  "num_vertices triangle_upper = 3"
  "num_blocks triangle_upper = 2"
  "b triangle_upper = (\<lambda>_. 0)"
  "vweight triangle_upper = (\<lambda>_. 0)(0 := 1, 1 := 1)"
  "degs triangle_upper = (\<lambda>_. (0, 0))(0 := (2, 2), 1 := (1, 1))"
  "wr triangle_upper = (\<lambda>_. 0)(0 := 2)"
  "mrs triangle_upper = (\<lambda>_. 0)((0, 0) := 3)"
  "mrp triangle_upper = (\<lambda>_. 0)(0 := 3)"
  "mrm triangle_upper = (\<lambda>_. 0)(0 := 3)"
  "bclabel triangle_upper = (\<lambda>_. 0)"
  "pclabel triangle_upper = (\<lambda>_. 0)"
  "deg_corr triangle_upper = False"
  "total_N triangle_upper = 2"
  "total_E triangle_upper = 3"
  "empty_groups triangle_upper = {1}"
  "candidate_groups triangle_upper = {0}"
  "m_entries triangle_upper = []"
  "coupled_entropy_args triangle_upper = ea_all"
  by (simp_all add: triangle_upper_def)

lemma length_stats_triangle_upper [simp]: "length (partition_stats triangle_upper) = 1"
  by (simp add: triangle_upper_def length_init_partition_stats numeral_3_eq_3)


subsection \<open>The sizes stay representable\<close>













subsection \<open>Invariant I4\<close>




subsection \<open>Coupling propagation\<close>

lemma apply_delta_lvl_coupled:
  "coupled_state (apply_delta (BlockState L c)) =
     (case c of None \<Rightarrow> None
      | Some H \<Rightarrow> Some (if p_entries (m_entries L) = [] then H
                         else propagate_delta H (p_entries (m_entries L))))"
  by (simp add: apply_delta.simps)

lemma propagate_delta_fields:
  "vweight (lvl (propagate_delta H es)) = vweight (lvl H)"
  "b (lvl (propagate_delta H es)) = b (lvl H)"
  "wr (lvl (propagate_delta H es)) = wr (lvl H)"
  using node_view_transfer(4,5,6) [OF node_view_apply_delta(2) [of H es]] by simp_all

text \<open>
  Claim C6: with a coupled state installed, removing a vertex that empties block \<open>r\<close>
  (positive weight, equal to the size of \<open>r\<close>) makes the coupled state the result of
  \<^verbatim>\<open>remove_partition_node(r, hb[r])\<close> followed by \<^verbatim>\<open>set_vertex_weight(r, 0)\<close>, and leaves
  it alone otherwise; adding a vertex that newly occupies block \<open>nr\<close> makes it the result
  of \<^verbatim>\<open>set_vertex_weight(nr, 1)\<close> followed by \<^verbatim>\<open>add_partition_node(nr, hb[nr])\<close>, and
  leaves it alone otherwise. An allowed \<^verbatim>\<open>move_vertex\<close> does the first and then the
  second on the coupled state that has received the edge deltas.
\<close>

theorem coupling_propagation:
  "coupled_state (remove_partition_node (BlockState L (Some H)) v r) =
     Some (if 0 < vweight L v \<and> wr L r = vweight L v
           then set_vertex_weight (remove_partition_node H r (b (lvl H) r)) r 0
           else H)
   \<and> coupled_state (add_partition_node (BlockState L (Some H)) v nr) =
     Some (if 0 < vweight L v \<and> wr L nr = 0
           then add_partition_node (set_vertex_weight H nr 1) nr (b (lvl H) nr)
           else H)
   \<and> (b L v = r \<and> r \<noteq> nr \<and> allow_move (BlockState L (Some H)) r nr \<longrightarrow>
        coupled_state (snd (move_vertex (BlockState L (Some H)) v nr)) =
          Some (let es = p_entries (move_entries v r nr (b L) (g_edges L) (\<lambda>_. False));
                    H1 = (if es = [] then H else propagate_delta H es);
                    H2 = (if 0 < vweight L v \<and> wr L r = vweight L v
                          then set_vertex_weight
                                 (remove_partition_node H1 r (b (lvl H1) r)) r 0
                          else H1)
                in if 0 < vweight L v \<and> wr L nr = 0
                   then add_partition_node (set_vertex_weight H2 nr 1) nr (b (lvl H2) nr)
                   else H2))"
proof (intro conjI impI)
  show "coupled_state (remove_partition_node (BlockState L (Some H)) v r) =
     Some (if 0 < vweight L v \<and> wr L r = vweight L v
           then set_vertex_weight (remove_partition_node H r (b (lvl H) r)) r 0
           else H)"
    by (simp add: remove_partition_node_coupled)
  show "coupled_state (add_partition_node (BlockState L (Some H)) v nr) =
     Some (if 0 < vweight L v \<and> wr L nr = 0
           then add_partition_node (set_vertex_weight H nr 1) nr (b (lvl H) nr)
           else H)"
    by (simp add: add_partition_node_coupled)
next
  assume a: "b L v = r \<and> r \<noteq> nr \<and> allow_move (BlockState L (Some H)) r nr"
  define es where "es = p_entries (move_entries v r nr (b L) (g_edges L) (\<lambda>_. False))"
  define H1 where "H1 = (if es = [] then H else propagate_delta H es)"
  define L1 where "L1 = fold apply_entry (move_entries v r nr (b L) (g_edges L) (\<lambda>_. False))
                          (L\<lparr>m_entries := move_entries v r nr (b L) (g_edges L) (\<lambda>_. False)\<rparr>)"
  have X: "apply_delta (get_move_entries (BlockState L (Some H)) v r nr (\<lambda>_. False)) =
             BlockState L1 (Some H1)"
    by (simp add: apply_delta.simps L1_def H1_def es_def)
  have nv: "node_view (BlockState L1 (Some H1)) = node_view (BlockState L (Some H))"
    using node_view_apply_delta(1) [of "get_move_entries (BlockState L (Some H)) v r nr (\<lambda>_. False)"]
    by (simp only: X node_view_get_move_entries)
  have f: "vweight L1 = vweight L" "wr L1 = wr L"
    using node_view_transfer(5,6) [OF nv] by simp_all
  define H2 where "H2 = (if 0 < vweight L v \<and> wr L r = vweight L v
                          then set_vertex_weight
                                 (remove_partition_node H1 r (b (lvl H1) r)) r 0
                          else H1)"
  define Y where "Y = remove_partition_node (BlockState L1 (Some H1)) v r"
  have Yc: "coupled_state Y = Some H2"
    by (simp add: Y_def remove_partition_node_coupled f H2_def)
  have Yl: "vweight (lvl Y) = vweight L" "wr (lvl Y) nr = wr L nr"
    using a by (simp_all add: Y_def rpn_lvl f)
  obtain LY where Yeq: "Y = BlockState LY (Some H2)"
    using Yc by (cases Y) auto
  have "coupled_state (add_partition_node Y v nr) =
          Some (if 0 < vweight L v \<and> wr L nr = 0
                then add_partition_node (set_vertex_weight H2 nr 1) nr (b (lvl H2) nr)
                else H2)"
    using Yl by (simp add: Yeq add_partition_node_coupled)
  moreover have "snd (move_vertex (BlockState L (Some H)) v nr) = add_partition_node Y v nr"
    using a X
    by (simp add: move_vertex_def move_vertex_entries_def Let_def Y_def
          del: allow_move.simps get_move_entries.simps)
  ultimately have "coupled_state (snd (move_vertex (BlockState L (Some H)) v nr)) =
          Some (if 0 < vweight L v \<and> wr L nr = 0
                then add_partition_node (set_vertex_weight H2 nr 1) nr (b (lvl H2) nr)
                else H2)"
    by simp
  then show "coupled_state (snd (move_vertex (BlockState L (Some H)) v nr)) =
          Some (let es = p_entries (move_entries v r nr (b L) (g_edges L) (\<lambda>_. False));
                    H1 = (if es = [] then H else propagate_delta H es);
                    H2 = (if 0 < vweight L v \<and> wr L r = vweight L v
                          then set_vertex_weight
                                 (remove_partition_node H1 r (b (lvl H1) r)) r 0
                          else H1)
                in if 0 < vweight L v \<and> wr L nr = 0
                   then add_partition_node (set_vertex_weight H2 nr 1) nr (b (lvl H2) nr)
                   else H2)"
    unfolding Let_def H2_def H1_def es_def .
qed


theorem coupling_propagation_witness:
  "b triangle 2 = 1 \<and> (1::nat) \<noteq> 2 \<and> allow_move nested_triangle 1 2
   \<and> vweight triangle_upper 1 = 1 \<and> vweight triangle_upper 2 = 0
   \<and> vweight (lvl (the (coupled_state (snd (move_vertex nested_triangle 2 2))))) 1 = 0
   \<and> vweight (lvl (the (coupled_state (snd (move_vertex nested_triangle 2 2))))) 2 = 1
   \<and> wr (lvl (the (coupled_state (snd (move_vertex nested_triangle 2 2))))) 0 = 2"
proof -
  have h: "b triangle 2 = 1 \<and> (1::nat) \<noteq> 2
           \<and> allow_move (BlockState triangle (Some (BlockState triangle_upper None))) 1 2"
    by simp
  have w: "0 < vweight triangle 2 \<and> wr triangle 1 = vweight triangle 2" "wr triangle 2 = 0"
    by simp_all
  from coupling_propagation [of triangle "BlockState triangle_upper None" 2 1 2] h
  have "coupled_state (snd (move_vertex nested_triangle 2 2)) =
          Some (let es = p_entries (move_entries 2 1 2 (b triangle) (g_edges triangle) (\<lambda>_. False));
                    H1 = (if es = [] then BlockState triangle_upper None
                          else propagate_delta (BlockState triangle_upper None) es);
                    H2 = set_vertex_weight (remove_partition_node H1 1 (b (lvl H1) 1)) 1 0
                in add_partition_node (set_vertex_weight H2 2 1) 2 (b (lvl H2) 2))"
    using w unfolding nested_triangle_def by (simp add: Let_def)
  then show ?thesis
    using h by (simp add: Let_def nested_triangle_def apn_lvl rpn_lvl propagate_delta_fields)
qed

subsection \<open>One step of the partition node operations\<close>

text \<open>
  The partition statistics read the weights, the degrees and the assignment only, so the
  writes of the node operations to the other fields can be dropped below them.
\<close>

lemma get_partition_stats_stats_of:
  "get_partition_stats L v = L\<lparr>partition_stats := stats_of L v\<rparr>"
  by (simp add: stats_of_def get_partition_stats_def init_partition_stats_def Let_def)

lemma ps_change_vertex_cong:
  "vweight L = vweight L' \<Longrightarrow> degs L = degs L' \<Longrightarrow> deg_corr L = deg_corr L' \<Longrightarrow>
     ps_change_vertex L = ps_change_vertex L'"
  by (simp add: fun_eq_iff ps_change_vertex_def Let_def)

lemma ps_vertex_cong:
  assumes "vweight L = vweight L'" "degs L = degs L'" "deg_corr L = deg_corr L'"
  shows "ps_remove_vertex L = ps_remove_vertex L'" "ps_add_vertex L = ps_add_vertex L'"
  using ps_change_vertex_cong [OF assms] assms(1)
  by (simp_all add: fun_eq_iff ps_remove_vertex_def ps_add_vertex_def)

lemma ps_vertex_strip [simp]:
  "ps_remove_vertex (L\<lparr>g_edges := x1\<rparr>) = ps_remove_vertex L"
  "ps_remove_vertex (L\<lparr>num_blocks := x2\<rparr>) = ps_remove_vertex L"
  "ps_remove_vertex (L\<lparr>b := x3\<rparr>) = ps_remove_vertex L"
  "ps_remove_vertex (L\<lparr>wr := x4\<rparr>) = ps_remove_vertex L"
  "ps_remove_vertex (L\<lparr>mrs := x5\<rparr>) = ps_remove_vertex L"
  "ps_remove_vertex (L\<lparr>mrp := x6\<rparr>) = ps_remove_vertex L"
  "ps_remove_vertex (L\<lparr>mrm := x7\<rparr>) = ps_remove_vertex L"
  "ps_remove_vertex (L\<lparr>total_N := x8\<rparr>) = ps_remove_vertex L"
  "ps_remove_vertex (L\<lparr>empty_groups := x9\<rparr>) = ps_remove_vertex L"
  "ps_remove_vertex (L\<lparr>candidate_groups := x10\<rparr>) = ps_remove_vertex L"
  "ps_remove_vertex (L\<lparr>partition_stats := x11\<rparr>) = ps_remove_vertex L"
  "ps_remove_vertex (L\<lparr>m_entries := x12\<rparr>) = ps_remove_vertex L"
  "ps_add_vertex (L\<lparr>g_edges := x1\<rparr>) = ps_add_vertex L"
  "ps_add_vertex (L\<lparr>num_blocks := x2\<rparr>) = ps_add_vertex L"
  "ps_add_vertex (L\<lparr>b := x3\<rparr>) = ps_add_vertex L"
  "ps_add_vertex (L\<lparr>wr := x4\<rparr>) = ps_add_vertex L"
  "ps_add_vertex (L\<lparr>mrs := x5\<rparr>) = ps_add_vertex L"
  "ps_add_vertex (L\<lparr>mrp := x6\<rparr>) = ps_add_vertex L"
  "ps_add_vertex (L\<lparr>mrm := x7\<rparr>) = ps_add_vertex L"
  "ps_add_vertex (L\<lparr>total_N := x8\<rparr>) = ps_add_vertex L"
  "ps_add_vertex (L\<lparr>empty_groups := x9\<rparr>) = ps_add_vertex L"
  "ps_add_vertex (L\<lparr>candidate_groups := x10\<rparr>) = ps_add_vertex L"
  "ps_add_vertex (L\<lparr>partition_stats := x11\<rparr>) = ps_add_vertex L"
  "ps_add_vertex (L\<lparr>m_entries := x12\<rparr>) = ps_add_vertex L"
  by (rule ps_vertex_cong; simp)+

lemma stats_of_cong:
  assumes "num_vertices L = num_vertices L'" "pclabel L = pclabel L'" "b L = b L'"
    "vweight L = vweight L'" "degs L = degs L'" "deg_corr L = deg_corr L'"
    "total_E L = total_E L'" "partition_stats L = partition_stats L'"
  shows "stats_of L = stats_of L'"
proof -
  have nps: "new_partition_stats L = new_partition_stats L'"
    using ps_vertex_cong(2) [OF assms(4,5,6)] assms(3,7)
    by (simp add: fun_eq_iff new_partition_stats_def)
  have "partition_stats (init_partition_stats L) = partition_stats (init_partition_stats L')"
    by (simp add: init_partition_stats_def Let_def assms(1,2) nps)
  then have "stats_of L v = stats_of L' v" for v
    by (simp add: stats_of_def get_partition_stats_def assms(2,8))
  then show ?thesis by (simp add: fun_eq_iff)
qed

lemma stats_of_strip [simp]:
  "stats_of (L\<lparr>g_edges := x1\<rparr>) = stats_of L"
  "stats_of (L\<lparr>num_blocks := x2\<rparr>) = stats_of L"
  "stats_of (L\<lparr>wr := x4\<rparr>) = stats_of L"
  "stats_of (L\<lparr>mrs := x5\<rparr>) = stats_of L"
  "stats_of (L\<lparr>mrp := x6\<rparr>) = stats_of L"
  "stats_of (L\<lparr>mrm := x7\<rparr>) = stats_of L"
  "stats_of (L\<lparr>total_N := x8\<rparr>) = stats_of L"
  "stats_of (L\<lparr>empty_groups := x9\<rparr>) = stats_of L"
  "stats_of (L\<lparr>candidate_groups := x10\<rparr>) = stats_of L"
  "stats_of (L\<lparr>m_entries := x12\<rparr>) = stats_of L"
  by (rule stats_of_cong; simp)+


lemma remove_partition_node_step:
  "remove_partition_node (BlockState L c) v r =
     BlockState
       (L\<lparr>wr := (wr L)(r := wr L r - vweight L v),
          empty_groups := (if 0 < vweight L v \<and> wr L r = vweight L v
                           then insert r (empty_groups L) else empty_groups L),
          candidate_groups := (if 0 < vweight L v \<and> wr L r = vweight L v
                               then candidate_groups L - {r} else candidate_groups L),
          partition_stats :=
            (stats_of L v)[pclabel L v := ps_remove_vertex L v r (stats_of L v ! pclabel L v)]\<rparr>)
       (if 0 < vweight L v \<and> wr L r = vweight L v
        then map_option (\<lambda>H. set_vertex_weight (remove_partition_node H r (b (lvl H) r)) r 0) c
        else c)"
proof -
  define vac where "vac \<longleftrightarrow> 0 < vweight L v \<and> wr L r = vweight L v"
  have "remove_partition_node (BlockState L c) v r =
     BlockState
       (L\<lparr>wr := (wr L)(r := wr L r - vweight L v),
          empty_groups := (if vac then insert r (empty_groups L) else empty_groups L),
          candidate_groups := (if vac then candidate_groups L - {r} else candidate_groups L),
          partition_stats :=
            (stats_of L v)[pclabel L v := ps_remove_vertex L v r (stats_of L v ! pclabel L v)]\<rparr>)
       (if vac
        then map_option (\<lambda>H. set_vertex_weight (remove_partition_node H r (b (lvl H) r)) r 0) c
        else c)"
    apply (subst remove_partition_node.simps)
    apply (simp only: Let_def vac_def [symmetric])
    apply (simp only: get_partition_stats_stats_of)
    apply (cases vac; cases c; simp)
    done
  then show ?thesis by (simp only: vac_def)
qed


lemma add_partition_node_step:
  "add_partition_node (BlockState L c) v r =
     BlockState
       (L\<lparr>b := (b L)(v := r),
          wr := (wr L)(r := wr L r + vweight L v),
          empty_groups := (if 0 < vweight L v \<and> wr L r = 0
                           then empty_groups L - {r} else empty_groups L),
          candidate_groups := (if 0 < vweight L v \<and> wr L r = 0
                               then insert r (candidate_groups L) else candidate_groups L),
          partition_stats :=
            (stats_of (L\<lparr>b := (b L)(v := r)\<rparr>) v)
              [pclabel L v :=
                 ps_add_vertex L v r (stats_of (L\<lparr>b := (b L)(v := r)\<rparr>) v ! pclabel L v)]\<rparr>)
       (if 0 < vweight L v \<and> wr L r = 0
        then map_option (\<lambda>H. add_partition_node (set_vertex_weight H r 1) r (b (lvl H) r)) c
        else c)"
proof -
  define occ where "occ \<longleftrightarrow> 0 < vweight L v \<and> wr L r = 0"
  have cond: "(0 < vweight L v \<and> wr L r + vweight L v = vweight L v) = occ"
    by (auto simp: occ_def)
  have "add_partition_node (BlockState L c) v r =
     BlockState
       (L\<lparr>b := (b L)(v := r),
          wr := (wr L)(r := wr L r + vweight L v),
          empty_groups := (if occ then empty_groups L - {r} else empty_groups L),
          candidate_groups := (if occ then insert r (candidate_groups L) else candidate_groups L),
          partition_stats :=
            (stats_of (L\<lparr>b := (b L)(v := r)\<rparr>) v)
              [pclabel L v :=
                 ps_add_vertex L v r (stats_of (L\<lparr>b := (b L)(v := r)\<rparr>) v ! pclabel L v)]\<rparr>)
       (if occ
        then map_option (\<lambda>H. add_partition_node (set_vertex_weight H r 1) r (b (lvl H) r)) c
        else c)"
    apply (subst add_partition_node.simps)
    apply (simp only: Let_def)
    apply (simp only: get_partition_stats_stats_of)
    apply (cases c; simp split del: if_split add: occ_def [symmetric])
     apply (cases occ; simp)
    apply (cases occ; simp)
    done
  then show ?thesis by (simp only: occ_def)
qed

subsection \<open>The node operations do not depend on the edge counts\<close>

lemma node_view_set_vertex_weight [simp]:
  "node_view (set_vertex_weight S v w) = set_vertex_weight (node_view S) v w"
  by (cases S) simp

lemma lvl_node_view_fields [simp]:
  "pclabel (lvl (node_view S)) = pclabel (lvl S)"
  "partition_stats (lvl (node_view S)) = partition_stats (lvl S)"
  by (cases S; simp)+




subsection \<open>Removing a vertex of weight zero\<close>

lemma zero_weight_triangle_fields [simp]:
  "g_edges zero_weight_triangle = [(0, 1, 1), (1, 2, 1), (2, 0, 1)]"
  "b zero_weight_triangle = (\<lambda>_. 0)(2 := 1)"
  "vweight zero_weight_triangle = (\<lambda>_. 1)(2 := 0, 3 := 0)"
  "mrs zero_weight_triangle = (\<lambda>_. 0)((0, 0) := 1, (0, 1) := 1, (1, 0) := 1)"
  "pclabel zero_weight_triangle = (\<lambda>_. 0)"
  "m_entries zero_weight_triangle = []"
  by (simp_all add: zero_weight_triangle_def triangle_counters_def)

lemma length_stats_zero_weight_triangle [simp]:
  "length (partition_stats zero_weight_triangle) = 1"
  by (simp add: zero_weight_triangle_def length_init_partition_stats triangle_counters_def
      eval_nat_numeral)

lemma rpn_mrs [simp]:
  "mrs (lvl (remove_partition_node S v r)) = mrs (lvl S)"
  "mrp (lvl (remove_partition_node S v r)) = mrp (lvl S)"
  "mrm (lvl (remove_partition_node S v r)) = mrm (lvl S)"
  by (cases S; simp add: remove_partition_node_step)+









subsection \<open>Removing and adding back the partition node\<close>




subsection \<open>The entries of the opposite move\<close>

lemma neg_entries_simps [simp]:
  "neg_entries [] = []"
  "neg_entries ((k, d) # es) = (k, - d) # neg_entries es"
  "neg_entries es = [] \<longleftrightarrow> es = []"
  by (simp_all add: neg_entries_def)






subsection \<open>The edge counts after applying entries\<close>



lemma fold_apply_entry_other [simp]:
  "b (fold apply_entry es L) = b L"
  "m_entries (fold apply_entry es L) = m_entries L"
  using fold_apply_entry_frame [where es = es and L = L and x = "mrs L" and y = "mrp L"
      and z = "mrm L", THEN arg_cong, of b]
    fold_apply_entry_frame [where es = es and L = L and x = "mrs L" and y = "mrp L"
      and z = "mrm L", THEN arg_cong, of m_entries]
  by simp_all



lemma assignments_nonempty [simp]: "assignments X \<noteq> []" "[] \<noteq> assignments X"
  by (cases X; simp)+


lemma assignments_node_view [simp]: "assignments (node_view X) = assignments X"
  by (induction X) (auto split: option.splits)

lemma assignments_apply_delta [simp]: "assignments (apply_delta X) = assignments X"
  using assignments_node_view [of "apply_delta X"] by simp

lemma assignments_get_move_entries [simp]:
  "assignments (get_move_entries S v r nr efilt) = assignments S"
  by (cases S) simp

lemma edge_counts_get_move_entries [simp]:
  "edge_counts (get_move_entries S v r nr efilt) = edge_counts S"
  by (cases S) simp

lemma views_set_vertex_weight [simp]:
  "assignments (set_vertex_weight S v w) = assignments S"
  "edge_counts (set_vertex_weight S v w) = edge_counts S"
  by (cases S; simp)+

lemma views_remove_partition_node [simp]:
  "assignments (remove_partition_node S v r) = assignments S"
  "edge_counts (remove_partition_node S v r) = edge_counts S"
proof (induction S arbitrary: v r)
  case (BlockState L c)
  {
    case 1
    show ?case
      unfolding remove_partition_node_step
      by (cases c) (simp_all add: BlockState.IH(1) rpn_lvl)
  next
    case 2
    show ?case
      unfolding remove_partition_node_step
      by (cases c) (simp_all add: BlockState.IH(2))
  }
qed

lemma edge_counts_add_partition_node [simp]:
  "edge_counts (add_partition_node S v r) = edge_counts S"
proof (induction S v r rule: add_partition_node.induct)
  case (1 L c v r)
  have IH: "edge_counts (add_partition_node (set_vertex_weight H r 1) r (b (lvl H) r)) =
            edge_counts (set_vertex_weight H r 1)"
    if "c = Some H" "0 < vweight L v" "wr L r = 0" for H
    using "1.IH" [OF refl refl refl refl _ that(1)] that(2,3) by simp
  show ?case
    unfolding add_partition_node_step
    by (cases c) (simp_all add: IH)
qed





subsection \<open>Removing a vertex and adding it back\<close>

lemma coupled_weights_node_view [simp]: "coupled_weights (node_view S) = coupled_weights S"
  by (induction S) (auto split: option.splits)

lemma stats_initialised_node_view [simp]: "stats_initialised (node_view S) = stats_initialised S"
  by (induction S) (auto split: option.splits)

lemma g_edges_node_view [simp]: "g_edges (lvl (node_view S)) = g_edges (lvl S)"
  by (cases S) simp

lemma g_edges_remove_partition_node [simp]:
  "g_edges (lvl (remove_partition_node S v r)) = g_edges (lvl S)"
  by (cases S) (simp add: remove_partition_node_step)

lemma g_edges_moved [simp]:
  "g_edges (lvl (apply_delta (get_move_entries S v r nr efilt))) = g_edges (lvl S)"
  using g_edges_node_view [of "apply_delta (get_move_entries S v r nr efilt)"] by simp










end
